theory Spec2Isabelle
  imports Main "HOL-Library.Word"
begin

section \<open>JavaScript strings\<close>

text \<open>
  A JavaScript string is a sequence of UTF-16 code units, and so are the strings
  \<^verbatim>\<open>express.json()\<close> hands to the handlers. The literals of the program are ASCII and are
  written \<open>js ''...''\<close>.
\<close>

type_synonym jstring = "16 word list"

definition js :: "string \<Rightarrow> jstring" where
  "js s = map of_char s"

text \<open>
  \<^verbatim>\<open>String.prototype.trim\<close> strips WhiteSpace and LineTerminator code points from both ends:
  TAB, LF, VT, FF, CR, SPACE, U+00A0, U+1680, U+2000 to U+200A, U+2028, U+2029, U+202F,
  U+205F, U+3000 and U+FEFF (ECMAScript over Unicode 6.3 and later). All of them are single
  code units.
\<close>

definition is_space :: "16 word \<Rightarrow> bool" where
  "is_space c =
     (c \<in> set [0x0009, 0x000A, 0x000B, 0x000C, 0x000D, 0x0020, 0x00A0, 0x1680,
                0x2000, 0x2001, 0x2002, 0x2003, 0x2004, 0x2005, 0x2006, 0x2007, 0x2008,
                0x2009, 0x200A, 0x2028, 0x2029, 0x202F, 0x205F, 0x3000, 0xFEFF])"

definition trim :: "jstring \<Rightarrow> jstring" where
  "trim s = rev (dropWhile is_space (rev (dropWhile is_space s)))"

text \<open>On a string of ASCII code units, lower-casing moves the letters A to Z down by 32.\<close>

definition lower_unit :: "16 word \<Rightarrow> 16 word" where
  "lower_unit c = (if 0x41 \<le> c \<and> c \<le> 0x5A then c + 0x20 else c)"

definition is_ascii :: "jstring \<Rightarrow> bool" where
  "is_ascii s = list_all (\<lambda>c. c < 0x80) s"

section \<open>JSON values\<close>

text \<open>
  A field of the request body is any JSON value, or \<^verbatim>\<open>undefined\<close> when the key is absent.
  Of a JSON number the handlers only observe whether it is zero, so numbers are integers.
  The keys of objects are only ever compared with the program's own literals and stay
  plain strings.
\<close>

datatype json =
    JUndefined
  | JNull
  | JBool bool
  | JNum int
  | JStr jstring
  | JArr "json list"
  | JObj "(string \<times> json) list"

text \<open>JavaScript truthiness: \<^verbatim>\<open>!v\<close> is \<open>\<not> truthy v\<close>.\<close>

fun truthy :: "json \<Rightarrow> bool" where
  "truthy JUndefined = False"
| "truthy JNull = False"
| "truthy (JBool b) = b"
| "truthy (JNum n) = (n \<noteq> 0)"
| "truthy (JStr s) = (s \<noteq> [])"
| "truthy (JArr xs) = True"
| "truthy (JObj kvs) = True"

fun is_string :: "json \<Rightarrow> bool" where
  "is_string (JStr s) = True"
| "is_string v = False"

text \<open>The request body: the members of the parsed object; a missing key reads as \<^verbatim>\<open>undefined\<close>.\<close>

type_synonym req_body = "string \<rightharpoonup> json"

definition field :: "req_body \<Rightarrow> string \<Rightarrow> json" where
  "field b k = (case b k of None \<Rightarrow> JUndefined | Some v \<Rightarrow> v)"

text \<open>What a handler can throw inside its \<^verbatim>\<open>try\<close> block.\<close>

datatype js_error =
    TypeError            \<comment> \<open>\<^verbatim>\<open>x.trim is not a function\<close>\<close>
  | IllegalArguments     \<comment> \<open>bcryptjs given a value that is not a string\<close>
  | HashError            \<comment> \<open>the hasher's promise rejects\<close>
  | DuplicateEntry       \<comment> \<open>the UNIQUE index on \<^verbatim>\<open>email\<close> rejects the row\<close>
  | QueryError           \<comment> \<open>any other failure of \<^verbatim>\<open>db.query\<close>\<close>

definition and_then :: "js_error + 'a \<Rightarrow> ('a \<Rightarrow> js_error + 'b) \<Rightarrow> js_error + 'b" where
  "and_then m f = (case m of Inl e \<Rightarrow> Inl e | Inr x \<Rightarrow> f x)"

text \<open>
  \<^verbatim>\<open>v.trim()\<close> on a value taken from the body: only a string has the method; on every
  other truthy JSON value the call throws a TypeError.
\<close>

fun js_trim :: "json \<Rightarrow> js_error + jstring" where
  "js_trim (JStr s) = Inr (trim s)"
| "js_trim v = Inl TypeError"

text \<open>\<^verbatim>\<open>s || "User"\<close> on a string: the empty string is falsy.\<close>

definition or_User :: "jstring \<Rightarrow> jstring" where
  "or_User s = (if s = [] then js ''User'' else s)"

section \<open>The environment: configuration, the engine and the external collaborators\<close>

text \<open>
  The hasher (bcryptjs), the token signer (jsonwebtoken), the relational store (mysql2),
  the multipart middleware (multer over busboy) and the object store (S3 through multer-s3)
  are libraries and services outside the repository, and the case mapping of Unicode is
  the engine's. They are parameters of the model: every theorem holds for whatever they
  compute.
  \<^item> \<open>unicode_lower s\<close>: what \<^verbatim>\<open>toLowerCase\<close> returns on a string that is not all ASCII;
  \<^item> \<open>hash_impl p rounds\<close>: what \<^verbatim>\<open>bcrypt.hash\<close> resolves to on the string \<open>p\<close> (the salt it
    draws is part of the environment), or \<open>None\<close> when its promise rejects;
  \<^item> \<open>compare_impl p h\<close>: what \<^verbatim>\<open>bcrypt.compare\<close> resolves to on two strings;
  \<^item> \<open>sign_impl payload secret options\<close>: the string \<^verbatim>\<open>jwt.sign\<close> returns;
  \<^item> \<open>db_fault\<close>: the store fails the statement for a reason of its own (pool not yet
    created, connection lost, server-side rejection);
  \<^item> \<open>db_clock\<close>: the store's \<^verbatim>\<open>CURRENT_TIMESTAMP\<close>;
  \<^item> \<open>date_now\<close>: \<^verbatim>\<open>Date.now()\<close> as it prints inside the key template;
  \<^item> \<open>s3_fault\<close>: the message of the error the object store fails an upload with, if any;
  \<^item> \<open>s3_location\<close>: the URL the object store reports for a key;
  \<^item> \<open>reported_name n\<close>: the file name the multipart parser reports for a part sent with
    the file name \<open>n\<close> (it drops a leading path);
  \<^item> \<open>field_fault k v\<close>: the message of the error the middleware aborts with on a text
    field named \<open>k\<close> of value \<open>v\<close> (a limit of the parser exceeded), if any;
  \<^item> \<open>unexpected_file_message\<close>: the message of the error the middleware aborts with on a
    file it does not expect;
  \<^item> \<open>malformed_message\<close>: the message of the error a body that cannot be parsed gives.
\<close>

record env =
  JWT_SECRET :: "jstring option"
  unicode_lower :: "jstring \<Rightarrow> jstring"
  hash_impl :: "jstring \<Rightarrow> nat \<Rightarrow> jstring option"
  compare_impl :: "jstring \<Rightarrow> jstring \<Rightarrow> bool"
  sign_impl :: "json \<Rightarrow> jstring \<Rightarrow> json \<Rightarrow> jstring"
  db_fault :: bool
  db_clock :: nat
  date_now :: jstring
  s3_fault :: "jstring option"
  s3_location :: "jstring \<Rightarrow> jstring"
  reported_name :: "jstring \<Rightarrow> jstring"
  field_fault :: "jstring \<Rightarrow> jstring \<Rightarrow> jstring option"
  unexpected_file_message :: jstring
  malformed_message :: jstring

text \<open>
  \<^verbatim>\<open>String.prototype.toLowerCase\<close>: the ASCII mapping on an ASCII string, the engine's
  Unicode case mapping on every other string.
\<close>

definition toLowerCase :: "env \<Rightarrow> jstring \<Rightarrow> jstring" where
  "toLowerCase ev s = (if is_ascii s then map lower_unit s else unicode_lower ev s)"

text \<open>
  bcryptjs checks its arguments before it works: \<^verbatim>\<open>hash(s, 10)\<close> rejects with
  "Illegal arguments" unless \<open>s\<close> is a string, and so does \<^verbatim>\<open>compare(s, hash)\<close> unless both
  are strings.
\<close>

definition bcrypt_hash :: "env \<Rightarrow> json \<Rightarrow> nat \<Rightarrow> js_error + jstring" where
  "bcrypt_hash ev s rounds =
     (case s of
        JStr p \<Rightarrow> (case hash_impl ev p rounds of None \<Rightarrow> Inl HashError | Some h \<Rightarrow> Inr h)
      | _ \<Rightarrow> Inl IllegalArguments)"

definition bcrypt_compare :: "env \<Rightarrow> json \<Rightarrow> jstring \<Rightarrow> js_error + bool" where
  "bcrypt_compare ev s h =
     (case s of JStr p \<Rightarrow> Inr (compare_impl ev p h) | _ \<Rightarrow> Inl IllegalArguments)"

section \<open>The users table\<close>

text \<open>
  \<^verbatim>\<open>users(id INT AUTO_INCREMENT PRIMARY KEY, name, email UNIQUE NOT NULL, password NOT NULL,
  created_at)\<close>. The table is the list of its rows in insertion order. The \<^verbatim>\<open>name\<close> column is
  optional in the model because the login handler reads it with \<^verbatim>\<open>?.\<close>; the rows this
  program inserts always carry one. The UNIQUE index and the WHERE clause compare emails
  as the strings the handlers pass, which are already trimmed and lower-cased.
\<close>

record user_row =
  user_id :: nat
  user_name :: "jstring option"
  user_email :: jstring
  user_password :: jstring
  user_created_at :: nat

type_synonym users_table = "user_row list"

text \<open>AUTO_INCREMENT: an id above every id in the table.\<close>

definition next_id :: "users_table \<Rightarrow> nat" where
  "next_id tbl = Suc (fold max (map user_id tbl) 0)"

text \<open>
  \<^verbatim>\<open>INSERT INTO users (name, email, password) VALUES (?, ?, ?)\<close>: one statement, which either
  adds one row or fails and adds none.
\<close>

definition insert_user ::
  "env \<Rightarrow> users_table \<Rightarrow> jstring \<Rightarrow> jstring \<Rightarrow> jstring \<Rightarrow> js_error + users_table" where
  "insert_user ev tbl n e h =
     (if db_fault ev then Inl QueryError
      else if e \<in> set (map user_email tbl) then Inl DuplicateEntry
      else Inr (tbl @ [\<lparr>user_id = next_id tbl, user_name = Some n, user_email = e,
                       user_password = h, user_created_at = db_clock ev\<rparr>]))"

text \<open>\<^verbatim>\<open>SELECT * FROM users WHERE email = ?\<close>\<close>

definition select_by_email :: "env \<Rightarrow> users_table \<Rightarrow> jstring \<Rightarrow> js_error + user_row list" where
  "select_by_email ev tbl e =
     (if db_fault ev then Inl QueryError else Inr (filter (\<lambda>r. user_email r = e) tbl))"

section \<open>Responses\<close>

text \<open>\<^verbatim>\<open>res.status(n).json(v)\<close>; \<^verbatim>\<open>res.json(v)\<close> alone answers 200.\<close>

record response =
  status :: nat
  payload :: json

definition message :: "jstring \<Rightarrow> json" where
  "message m = JObj [(''message'', JStr m)]"

text \<open>The message of the login handler's catch-all; its dash is the code unit U+2014.\<close>

definition server_error_message :: jstring where
  "server_error_message = js ''Server error '' @ [0x2014] @ js '' check terminal''"

section \<open>POST /api/register\<close>

text \<open>
  The body of the \<^verbatim>\<open>try\<close> block, in evaluation order: hash the password, trim the name,
  trim and lower-case the email, run the INSERT.
\<close>

definition register_try :: "env \<Rightarrow> users_table \<Rightarrow> json \<Rightarrow> json \<Rightarrow> json \<Rightarrow> js_error + users_table" where
  "register_try ev tbl name email password =
     and_then (bcrypt_hash ev password 10) (\<lambda>hashed.
     and_then (js_trim name) (\<lambda>n.
     and_then (js_trim email) (\<lambda>e.
       insert_user ev tbl (or_User n) (toLowerCase ev e) hashed)))"

definition register :: "env \<Rightarrow> users_table \<Rightarrow> req_body \<Rightarrow> response \<times> users_table" where
  "register ev tbl b =
     (let name = field b ''name''; email = field b ''email''; password = field b ''password'' in
      if \<not> truthy name \<or> \<not> truthy email \<or> \<not> truthy password
      then (\<lparr>status = 400, payload = message (js ''All fields required'')\<rparr>, tbl)
      else (case register_try ev tbl name email password of
              Inr tbl' \<Rightarrow>
                (\<lparr>status = 200,
                  payload = JObj [(''success'', JBool True),
                                  (''message'', JStr (js ''Account created!''))]\<rparr>,
                 tbl')
            | Inl err \<Rightarrow> (\<lparr>status = 400, payload = message (js ''Email already exists'')\<rparr>, tbl)))"

section \<open>POST /api/login\<close>

text \<open>
  The handler reads the table and never writes it, so it returns the response alone. What
  the \<^verbatim>\<open>catch\<close> block prints on the console is not part of the response and is left out.
\<close>

text \<open>\<^verbatim>\<open>user.name?.trim() || "User"\<close>\<close>

definition safeName :: "user_row \<Rightarrow> jstring" where
  "safeName user = (case user_name user of None \<Rightarrow> js ''User'' | Some n \<Rightarrow> or_User (trim n))"

text \<open>\<^verbatim>\<open>process.env.JWT_SECRET || "medilocker_secret_2025"\<close>\<close>

definition jwt_secret :: "env \<Rightarrow> jstring" where
  "jwt_secret ev =
     (case JWT_SECRET ev of
        None \<Rightarrow> js ''medilocker_secret_2025''
      | Some s \<Rightarrow> if s = [] then js ''medilocker_secret_2025'' else s)"

definition token_claims :: "user_row \<Rightarrow> json" where
  "token_claims user =
     JObj [(''id'', JNum (int (user_id user))), (''name'', JStr (safeName user)),
           (''email'', JStr (user_email user))]"

definition jwt_sign :: "env \<Rightarrow> user_row \<Rightarrow> jstring" where
  "jwt_sign ev user =
     sign_impl ev (token_claims user) (jwt_secret ev) (JObj [(''expiresIn'', JStr (js ''30d''))])"

definition invalid_credentials :: response where
  "invalid_credentials = \<lparr>status = 401, payload = message (js ''Invalid email or password'')\<rparr>"

definition login_try :: "env \<Rightarrow> users_table \<Rightarrow> req_body \<Rightarrow> js_error + response" where
  "login_try ev tbl b =
     (let email = field b ''email''; password = field b ''password'' in
      if \<not> truthy email \<or> \<not> truthy password
      then Inr \<lparr>status = 400, payload = message (js ''Email and password required'')\<rparr>
      else
        and_then (js_trim email) (\<lambda>e.
        and_then (select_by_email ev tbl (toLowerCase ev e)) (\<lambda>rows.
          case rows of
            [] \<Rightarrow> Inr invalid_credentials
          | user # rest \<Rightarrow>
              and_then (bcrypt_compare ev password (user_password user)) (\<lambda>isMatch.
                if \<not> isMatch then Inr invalid_credentials
                else Inr \<lparr>status = 200,
                          payload = JObj [(''success'', JBool True),
                                          (''token'', JStr (jwt_sign ev user))]\<rparr>))))"

definition login :: "env \<Rightarrow> users_table \<Rightarrow> req_body \<Rightarrow> response" where
  "login ev tbl b =
     (case login_try ev tbl b of
        Inr r \<Rightarrow> r
      | Inl err \<Rightarrow> \<lparr>status = 500, payload = message server_error_message\<rparr>)"

section \<open>POST /api/upload\<close>

text \<open>
  The request as the multipart middleware sees it: not multipart at all, or a sequence of
  parts. A part is a text field (name, value), a file (field name, file name as sent,
  content), or the point where the body cannot be parsed any further.
\<close>

datatype part =
    TextField jstring jstring
  | FilePart jstring jstring jstring
  | Malformed

datatype upload_request = NotMultipart | Multipart "part list"

text \<open>The bucket of the object store: objects by key.\<close>

type_synonym bucket = "jstring \<rightharpoonup> jstring"

record uploaded_file =
  originalname :: jstring
  key :: jstring
  location :: jstring

text \<open>What the callback given to \<^verbatim>\<open>upload.single("file")\<close> sees: \<^verbatim>\<open>err\<close> and \<^verbatim>\<open>req.file\<close>.\<close>

record multer_result =
  err :: "jstring option"
  req_file :: "uploaded_file option"

text \<open>\<^verbatim>\<open>`medilocker/${Date.now()}_${file.originalname}`\<close>\<close>

definition object_key :: "env \<Rightarrow> jstring \<Rightarrow> jstring" where
  "object_key ev name = js ''medilocker/'' @ date_now ev @ js ''_'' @ name"

text \<open>
  The middleware \<^verbatim>\<open>upload.single("file")\<close> of multer over the multer-s3 storage. A request
  that is not multipart passes through untouched. The parts are taken in order. A body
  that cannot be parsed and a text field over a limit of the parser abort the request with
  the library's error. Other text fields go to \<^verbatim>\<open>req.body\<close>. A file part for which the
  parser reports no file name is skipped. A file part under any other field name, or a
  second one under \<^verbatim>\<open>file\<close>, aborts the request with the library's error for an unexpected
  file. The one accepted file is written to the bucket under its key and becomes
  \<^verbatim>\<open>req.file\<close>, or the object store's error aborts the request. When a request aborts, what
  it had stored is removed again. The texts of the library's errors depend on its version
  and are taken from the environment.
\<close>

definition remove_uploaded :: "uploaded_file option \<Rightarrow> bucket \<Rightarrow> bucket" where
  "remove_uploaded f bkt = (case f of None \<Rightarrow> bkt | Some u \<Rightarrow> bkt(key u := None))"

definition abort :: "jstring \<Rightarrow> uploaded_file option \<Rightarrow> bucket \<Rightarrow> multer_result \<times> bucket" where
  "abort m f bkt = (\<lparr>err = Some m, req_file = f\<rparr>, remove_uploaded f bkt)"

fun multer_parts ::
  "env \<Rightarrow> part list \<Rightarrow> nat \<Rightarrow> uploaded_file option \<Rightarrow> bucket \<Rightarrow> multer_result \<times> bucket" where
  "multer_parts ev [] filesLeft f bkt = (\<lparr>err = None, req_file = f\<rparr>, bkt)"
| "multer_parts ev (Malformed # ps) filesLeft f bkt = abort (malformed_message ev) f bkt"
| "multer_parts ev (TextField k v # ps) filesLeft f bkt =
     (case field_fault ev k v of
        Some m \<Rightarrow> abort m f bkt
      | None \<Rightarrow> multer_parts ev ps filesLeft f bkt)"
| "multer_parts ev (FilePart fieldname filename content # ps) filesLeft f bkt =
     (if reported_name ev filename = [] then multer_parts ev ps filesLeft f bkt
      else if fieldname \<noteq> js ''file'' \<or> filesLeft = 0
      then abort (unexpected_file_message ev) f bkt
      else (case s3_fault ev of
              Some m \<Rightarrow> abort m f bkt
            | None \<Rightarrow>
                multer_parts ev ps (filesLeft - 1)
                  (Some \<lparr>originalname = reported_name ev filename,
                         key = object_key ev (reported_name ev filename),
                         location = s3_location ev (object_key ev (reported_name ev filename))\<rparr>)
                  (bkt(object_key ev (reported_name ev filename) \<mapsto> content))))"

definition upload_single :: "env \<Rightarrow> upload_request \<Rightarrow> bucket \<Rightarrow> multer_result \<times> bucket" where
  "upload_single ev req bkt =
     (case req of
        NotMultipart \<Rightarrow> (\<lparr>err = None, req_file = None\<rparr>, bkt)
      | Multipart ps \<Rightarrow> multer_parts ev ps 1 None bkt)"

text \<open>
  The callback of the route: the error first, whose message it forwards, then the missing
  file, then success.
\<close>

definition upload_failed :: "jstring \<Rightarrow> response" where
  "upload_failed m =
     \<lparr>status = 500,
       payload = JObj [(''success'', JBool False), (''message'', JStr (js ''Upload failed'')),
                       (''error'', JStr m)]\<rparr>"

definition no_file_uploaded :: response where
  "no_file_uploaded =
     \<lparr>status = 400,
       payload = JObj [(''success'', JBool False), (''message'', JStr (js ''No file uploaded''))]\<rparr>"

definition upload_callback :: "multer_result \<Rightarrow> response" where
  "upload_callback r =
     (case err r of
        Some m \<Rightarrow> upload_failed m
      | None \<Rightarrow>
          (case req_file r of
             None \<Rightarrow> no_file_uploaded
           | Some f \<Rightarrow>
               \<lparr>status = 200,
                 payload = JObj [(''success'', JBool True), (''url'', JStr (location f))]\<rparr>))"

definition upload :: "env \<Rightarrow> upload_request \<Rightarrow> bucket \<Rightarrow> response \<times> bucket" where
  "upload ev req bkt = (case upload_single ev req bkt of (r, bkt') \<Rightarrow> (upload_callback r, bkt'))"

text \<open>
  The parts of a request; whether a part carries a file (the parser reports a file name
  for it), and whether it carries one under a given field name.
\<close>

definition parts_of :: "upload_request \<Rightarrow> part list" where
  "parts_of req = (case req of NotMultipart \<Rightarrow> [] | Multipart ps \<Rightarrow> ps)"

fun carries_file :: "env \<Rightarrow> part \<Rightarrow> bool" where
  "carries_file ev (FilePart fieldname filename content) = (reported_name ev filename \<noteq> [])"
| "carries_file ev p = False"

fun file_under :: "env \<Rightarrow> jstring \<Rightarrow> part \<Rightarrow> bool" where
  "file_under ev name (FilePart fieldname filename content) =
     (fieldname = name \<and> reported_name ev filename \<noteq> [])"
| "file_under ev name p = False"

text \<open>
  The error the middleware aborts with at a part that is not a file under \<^verbatim>\<open>file\<close>, if
  any, and the first such error along the parts of a request.
\<close>

fun rejection :: "env \<Rightarrow> part \<Rightarrow> jstring option" where
  "rejection ev Malformed = Some (malformed_message ev)"
| "rejection ev (TextField k v) = field_fault ev k v"
| "rejection ev (FilePart fieldname filename content) =
     (if reported_name ev filename = [] then None else Some (unexpected_file_message ev))"

fun first_rejection :: "env \<Rightarrow> part list \<Rightarrow> jstring option" where
  "first_rejection ev [] = None"
| "first_rejection ev (p # ps) =
     (case rejection ev p of Some m \<Rightarrow> Some m | None \<Rightarrow> first_rejection ev ps)"

section \<open>A sample environment\<close>

text \<open>
  Sample requests are run in this environment: no signing secret configured, a store
  without faults, and stand-ins for the engine and the libraries that are only good enough
  to run the samples: a case mapping that is right on strings below U+0100 (the capitals
  of Latin-1 move down by 32 as those of ASCII do), a hasher and a signer that tell their
  inputs apart, a parser that reports the file name after its last slash or backslash and
  refuses field names over 100 units.
\<close>

definition latin1_lower_unit :: "16 word \<Rightarrow> 16 word" where
  "latin1_lower_unit c =
     (if (0x41 \<le> c \<and> c \<le> 0x5A) \<or> (0xC0 \<le> c \<and> c \<le> 0xDE \<and> c \<noteq> 0xD7) then c + 0x20 else c)"

definition base_name :: "jstring \<Rightarrow> jstring" where
  "base_name n = rev (takeWhile (\<lambda>c. c \<noteq> 0x2F \<and> c \<noteq> 0x5C) (rev n))"

definition sample_env :: env where
  "sample_env =
     \<lparr>JWT_SECRET = None,
      unicode_lower = map latin1_lower_unit,
      hash_impl = (\<lambda>p rounds. Some (js ''$2b$10$'' @ rev p)),
      compare_impl = (\<lambda>p h. h = js ''$2b$10$'' @ rev p),
      sign_impl = (\<lambda>claims secret options. js ''header.claims.signature''),
      db_fault = False,
      db_clock = 0,
      date_now = js ''1700000000000'',
      s3_fault = None,
      s3_location = (\<lambda>k. js ''https://bucket.s3.amazonaws.com/'' @ k),
      reported_name = base_name,
      field_fault = (\<lambda>k v. if 100 < length k then Some (js ''Field name too long'') else None),
      unexpected_file_message = js ''Unexpected field'',
      malformed_message = js ''Unexpected end of form''\<rparr>"

section \<open>Names for the rows and responses the theorems speak of\<close>

text \<open>The row the INSERT of the register handler builds from the three strings and the hash.\<close>

definition new_row :: "env \<Rightarrow> users_table \<Rightarrow> jstring \<Rightarrow> jstring \<Rightarrow> jstring \<Rightarrow> user_row" where
  "new_row ev tbl n e h =
     \<lparr>user_id = next_id tbl, user_name = Some (or_User (trim n)),
      user_email = toLowerCase ev (trim e), user_password = h, user_created_at = db_clock ev\<rparr>"

text \<open>The answer of the login handler's \<^verbatim>\<open>catch\<close>, and its answer on success.\<close>

definition server_error :: response where
  "server_error = \<lparr>status = 500, payload = message server_error_message\<rparr>"

definition login_ok :: "env \<Rightarrow> user_row \<Rightarrow> response" where
  "login_ok ev user =
     \<lparr>status = 200, payload = JObj [(''success'', JBool True), (''token'', JStr (jwt_sign ev user))]\<rparr>"

text \<open>A table holding one account, as a registration of Ann with the password \<^verbatim>\<open>secret1\<close> leaves it.\<close>

definition ann_row :: user_row where
  "ann_row = \<lparr>user_id = 1, user_name = Some (js ''Ann''), user_email = js ''ann@example.com'',
              user_password = js ''$2b$10$1terces'', user_created_at = 0\<rparr>"

text \<open>The definitions a sample request unfolds to when it is run.\<close>

lemmas run_defs =
  register_def register_try_def login_def login_try_def field_def and_then_def Let_def
  bcrypt_hash_def bcrypt_compare_def insert_user_def select_by_email_def next_id_def
  or_User_def toLowerCase_def lower_unit_def is_ascii_def trim_def is_space_def message_def
  invalid_credentials_def jwt_sign_def token_claims_def safeName_def jwt_secret_def
  sample_env_def server_error_def server_error_message_def login_ok_def new_row_def ann_row_def
  latin1_lower_unit_def js_def

lemmas upload_defs =
  upload_def upload_single_def upload_callback_def upload_failed_def no_file_uploaded_def
  abort_def remove_uploaded_def object_key_def parts_of_def base_name_def sample_env_def js_def

section \<open>The register handler, case by case\<close>

lemma register_try_Inr:
  assumes "register_try ev tbl name email password = Inr tbl'"
  shows "\<exists>n e p h. name = JStr n \<and> email = JStr e \<and> password = JStr p
           \<and> hash_impl ev p 10 = Some h \<and> \<not> db_fault ev
           \<and> toLowerCase ev (trim e) \<notin> set (map user_email tbl)
           \<and> tbl' = tbl @ [new_row ev tbl n e h]"
proof -
  from assms obtain p where p: "password = JStr p"
    by (cases password) (simp_all add: register_try_def and_then_def bcrypt_hash_def)
  from assms p obtain h where h: "hash_impl ev p 10 = Some h"
    by (cases "hash_impl ev p 10") (simp_all add: register_try_def and_then_def bcrypt_hash_def)
  from assms p h obtain n where n: "name = JStr n"
    by (cases name) (simp_all add: register_try_def and_then_def bcrypt_hash_def)
  from assms p h n obtain e where e: "email = JStr e"
    by (cases email) (simp_all add: register_try_def and_then_def bcrypt_hash_def)
  from assms p h n e
  have ins: "insert_user ev tbl (or_User (trim n)) (toLowerCase ev (trim e)) h = Inr tbl'"
    by (simp add: register_try_def and_then_def bcrypt_hash_def)
  then have "\<not> db_fault ev" "toLowerCase ev (trim e) \<notin> set (map user_email tbl)"
    "tbl' = tbl @ [new_row ev tbl n e h]"
    by (auto simp: insert_user_def new_row_def split: if_splits)
  with p h n e show ?thesis by blast
qed

lemma register_falsy:
  assumes "\<not> truthy (field b ''name'') \<or> \<not> truthy (field b ''email'') \<or> \<not> truthy (field b ''password'')"
  shows "register ev tbl b = (\<lparr>status = 400, payload = message (js ''All fields required'')\<rparr>, tbl)"
  using assms by (auto simp: register_def Let_def)

lemma register_truthy:
  assumes "truthy (field b ''name'')" "truthy (field b ''email'')" "truthy (field b ''password'')"
  shows "register ev tbl b =
     (case register_try ev tbl (field b ''name'') (field b ''email'') (field b ''password'') of
        Inr tbl' \<Rightarrow>
          (\<lparr>status = 200,
            payload = JObj [(''success'', JBool True), (''message'', JStr (js ''Account created!''))]\<rparr>,
           tbl')
      | Inl e \<Rightarrow> (\<lparr>status = 400, payload = message (js ''Email already exists'')\<rparr>, tbl))"
  using assms by (simp add: register_def Let_def)

lemma register_200:
  assumes "register ev tbl b = (r, tbl')" "status r = 200"
  shows "truthy (field b ''name'') \<and> truthy (field b ''email'') \<and> truthy (field b ''password'')
         \<and> register_try ev tbl (field b ''name'') (field b ''email'') (field b ''password'') = Inr tbl'"
proof -
  have t: "truthy (field b ''name'') \<and> truthy (field b ''email'') \<and> truthy (field b ''password'')"
    using assms register_falsy [of b ev tbl] by fastforce
  with assms show ?thesis
    by (auto simp: register_truthy split: sum.splits)
qed

section \<open>The login handler, case by case\<close>

lemma login_falsy:
  assumes "\<not> truthy (field b ''email'') \<or> \<not> truthy (field b ''password'')"
  shows "login ev tbl b = \<lparr>status = 400, payload = message (js ''Email and password required'')\<rparr>"
  using assms by (auto simp: login_def login_try_def Let_def)

lemma login_not_string_email:
  assumes "truthy (field b ''email'')" "truthy (field b ''password'')" "\<not> is_string (field b ''email'')"
  shows "login ev tbl b = server_error"
  using assms
  by (cases "field b ''email''")
     (simp_all add: login_def login_try_def Let_def and_then_def server_error_def)

lemma login_string_email:
  assumes "field b ''email'' = JStr e" "e \<noteq> []" "truthy (field b ''password'')"
  shows "login ev tbl b =
     (if db_fault ev then server_error
      else (case filter (\<lambda>r. user_email r = toLowerCase ev (trim e)) tbl of
              [] \<Rightarrow> invalid_credentials
            | user # rest \<Rightarrow>
                (case field b ''password'' of
                   JStr p \<Rightarrow>
                     if compare_impl ev p (user_password user) then login_ok ev user
                     else invalid_credentials
                 | _ \<Rightarrow> server_error)))"
  using assms
  by (cases "field b ''password''")
     (simp_all add: login_def login_try_def Let_def and_then_def server_error_def login_ok_def
        select_by_email_def bcrypt_compare_def split: list.splits)

lemma status_login_ok [simp]: "status (login_ok ev user) = 200"
  by (simp add: login_ok_def)

lemma status_server_error [simp]: "status server_error = 500"
  by (simp add: server_error_def)

lemma status_invalid_credentials [simp]: "status invalid_credentials = 401"
  by (simp add: invalid_credentials_def)

lemma login_truthy_status:
  assumes "truthy (field b ''email'')" "truthy (field b ''password'')"
  shows "status (login ev tbl b) \<noteq> 400"
proof (cases "field b ''email''")
  case (JStr e)
  with assms have "e \<noteq> []" by simp
  from login_string_email [OF JStr this assms(2)] show ?thesis
    by (simp split: list.splits json.splits)
qed (use assms login_not_string_email [of b ev tbl] in simp_all)

section \<open>Field validation\<close>

text \<open>
  Claim C1, as the code has it. Both handlers test the fields as they arrive, before any
  trimming: registration answers 400 "All fields required", and leaves the table as it
  was, exactly when one of name, email and password is falsy (missing, null, false, 0 or
  the empty string); login answers 400 "Email and password required" exactly when email or
  password is falsy. A field of white space only is truthy and passes.
\<close>

theorem validation_rejects_falsy_fields:
  "(register ev tbl b = (\<lparr>status = 400, payload = message (js ''All fields required'')\<rparr>, tbl))
     = (\<not> truthy (field b ''name'') \<or> \<not> truthy (field b ''email'') \<or> \<not> truthy (field b ''password''))
   \<and> (login ev tbl b = \<lparr>status = 400, payload = message (js ''Email and password required'')\<rparr>)
     = (\<not> truthy (field b ''email'') \<or> \<not> truthy (field b ''password''))"
proof (intro conjI iffI)
  assume "register ev tbl b = (\<lparr>status = 400, payload = message (js ''All fields required'')\<rparr>, tbl)"
  then show "\<not> truthy (field b ''name'') \<or> \<not> truthy (field b ''email'') \<or> \<not> truthy (field b ''password'')"
    by (auto simp: register_truthy message_def js_def split: sum.splits)
next
  assume "\<not> truthy (field b ''name'') \<or> \<not> truthy (field b ''email'') \<or> \<not> truthy (field b ''password'')"
  then show "register ev tbl b = (\<lparr>status = 400, payload = message (js ''All fields required'')\<rparr>, tbl)"
    by (rule register_falsy)
next
  assume "login ev tbl b = \<lparr>status = 400, payload = message (js ''Email and password required'')\<rparr>"
  then have "status (login ev tbl b) = 400" by simp
  then show "\<not> truthy (field b ''email'') \<or> \<not> truthy (field b ''password'')"
    using login_truthy_status [of b ev tbl] by blast
next
  assume "\<not> truthy (field b ''email'') \<or> \<not> truthy (field b ''password'')"
  then show "login ev tbl b = \<lparr>status = 400, payload = message (js ''Email and password required'')\<rparr>"
    by (rule login_falsy)
qed

text \<open>An empty email at registration and a missing password at login are both refused.\<close>

theorem validation_rejects_falsy_fields_witness:
  "register sample_env [] [''name'' \<mapsto> JStr (js ''Ann''), ''email'' \<mapsto> JStr [], ''password'' \<mapsto> JStr (js ''secret1'')]
     = (\<lparr>status = 400, payload = message (js ''All fields required'')\<rparr>, [])
   \<and> login sample_env [] [''email'' \<mapsto> JStr (js ''ann@example.com'')]
     = \<lparr>status = 400, payload = message (js ''Email and password required'')\<rparr>"
  using validation_rejects_falsy_fields
          [of sample_env "[]" "[''name'' \<mapsto> JStr (js ''Ann''), ''email'' \<mapsto> JStr [], ''password'' \<mapsto> JStr (js ''secret1'')]"]
        validation_rejects_falsy_fields
          [of sample_env "[]" "[''email'' \<mapsto> JStr (js ''ann@example.com'')]"]
  by (simp add: field_def)

text \<open>
  Claim C1 as written fails: a registration whose name is white space only is accepted
  and stores a row, and a login whose email is white space only is answered
  401, not 400.
\<close>

theorem whitespace_only_fields_are_accepted:
  "register sample_env []
      [''name'' \<mapsto> JStr (js ''  ''), ''email'' \<mapsto> JStr (js ''Test@Example.com''), ''password'' \<mapsto> JStr (js ''secret1'')]
     = (\<lparr>status = 200,
         payload = JObj [(''success'', JBool True), (''message'', JStr (js ''Account created!''))]\<rparr>,
        [\<lparr>user_id = 1, user_name = Some (js ''User''), user_email = js ''test@example.com'',
          user_password = js ''$2b$10$1terces'', user_created_at = 0\<rparr>])
   \<and> login sample_env [] [''email'' \<mapsto> JStr (js ''  ''), ''password'' \<mapsto> JStr (js ''secret1'')]
     = \<lparr>status = 401, payload = message (js ''Invalid email or password'')\<rparr>"
  by (simp add: run_defs)

section \<open>Registration and the table\<close>

text \<open>
  Claim C8. Registration either answers 200 and the table has grown by exactly one row at
  its end, or answers 400 and the table is the one it was: a validation failure, an
  exception in hashing or trimming and a failed INSERT all leave it untouched.
\<close>

theorem register_atomic:
  "(status (fst (register ev tbl b)) = 200 \<and> (\<exists>row. snd (register ev tbl b) = tbl @ [row]))
   \<or> (status (fst (register ev tbl b)) = 400 \<and> snd (register ev tbl b) = tbl)"
proof (cases "truthy (field b ''name'') \<and> truthy (field b ''email'') \<and> truthy (field b ''password'')")
  case False
  then show ?thesis using register_falsy [of b ev tbl] by auto
next
  case True
  show ?thesis
  proof (cases "register_try ev tbl (field b ''name'') (field b ''email'') (field b ''password'')")
    case (Inl e)
    with True show ?thesis by (simp add: register_truthy)
  next
    case (Inr tbl')
    from register_try_Inr [OF Inr] obtain row where "tbl' = tbl @ [row]" by blast
    with True Inr show ?thesis by (simp add: register_truthy)
  qed
qed

theorem register_atomic_witness:
  "status (fst (register sample_env []
      [''name'' \<mapsto> JStr (js ''Ann''), ''email'' \<mapsto> JStr (js ''ann@example.com''), ''password'' \<mapsto> JStr (js ''secret1'')])) = 200
   \<and> snd (register sample_env []
      [''name'' \<mapsto> JStr (js ''Ann''), ''email'' \<mapsto> JStr (js ''ann@example.com''), ''password'' \<mapsto> JStr (js ''secret1'')])
     = [\<lparr>user_id = 1, user_name = Some (js ''Ann''), user_email = js ''ann@example.com'',
          user_password = js ''$2b$10$1terces'', user_created_at = 0\<rparr>]"
  using register_atomic
          [of sample_env "[]" "[''name'' \<mapsto> JStr (js ''Ann''), ''email'' \<mapsto> JStr (js ''ann@example.com''), ''password'' \<mapsto> JStr (js ''secret1'')]"]
  by (simp add: run_defs)

text \<open>
  Claim C5. When a registration succeeds and its name is a string that trims to nothing
  (the empty string cannot succeed, so: white space only, in the sense of
  \<^verbatim>\<open>String.prototype.trim\<close>), the row it appends has the name "User".
\<close>

theorem blank_name_stored_as_User:
  assumes "register ev tbl b = (r, tbl')" and "status r = 200"
    and "field b ''name'' = JStr n" and "trim n = []"
  shows "\<exists>row. tbl' = tbl @ [row] \<and> user_name row = Some (js ''User'')"
proof -
  from register_200 [OF assms(1,2)]
  have "register_try ev tbl (field b ''name'') (field b ''email'') (field b ''password'') = Inr tbl'"
    by simp
  from register_try_Inr [OF this] assms(3) obtain e h where "tbl' = tbl @ [new_row ev tbl n e h]"
    by auto
  moreover have "user_name (new_row ev tbl n e h) = Some (js ''User'')"
    using assms(4) by (simp add: new_row_def or_User_def)
  ultimately show ?thesis by blast
qed

text \<open>A name of a no-break space, a space and an ideographic space.\<close>

theorem blank_name_stored_as_User_witness:
  "\<exists>row. snd (register sample_env []
      [''name'' \<mapsto> JStr [0x00A0, 0x0020, 0x3000], ''email'' \<mapsto> JStr (js ''Test@Example.com''),
       ''password'' \<mapsto> JStr (js ''secret1'')])
     = [] @ [row] \<and> user_name row = Some (js ''User'')"
proof -
  let ?b = "[''name'' \<mapsto> JStr [0x00A0, 0x0020, 0x3000], ''email'' \<mapsto> JStr (js ''Test@Example.com''),
             ''password'' \<mapsto> JStr (js ''secret1'')]"
  have 1: "register sample_env [] ?b = (fst (register sample_env [] ?b), snd (register sample_env [] ?b))"
    by simp
  have 2: "status (fst (register sample_env [] ?b)) = 200"
    by (simp add: run_defs)
  have 3: "field ?b ''name'' = JStr [0x00A0, 0x0020, 0x3000]"
    by (simp add: field_def)
  have 4: "trim [0x00A0, 0x0020, 0x3000] = []"
    by (simp add: trim_def is_space_def)
  from blank_name_stored_as_User [OF 1 2 3 4] show ?thesis .
qed

text \<open>
  Claim C6. Once the three fields have passed validation, whatever the \<^verbatim>\<open>try\<close> block
  throws is answered 400 "Email already exists" with the table unchanged; in particular a
  fault of the store and an email already in the table are answered alike.
\<close>

theorem insert_failures_collapse:
  assumes "truthy (field b ''name'')" and "truthy (field b ''email'')" and "truthy (field b ''password'')"
  shows "(\<forall>e. register_try ev tbl (field b ''name'') (field b ''email'') (field b ''password'') = Inl e
            \<longrightarrow> register ev tbl b = (\<lparr>status = 400, payload = message (js ''Email already exists'')\<rparr>, tbl))
       \<and> (db_fault ev
            \<longrightarrow> register ev tbl b = (\<lparr>status = 400, payload = message (js ''Email already exists'')\<rparr>, tbl))
       \<and> (\<forall>e. field b ''email'' = JStr e \<and> toLowerCase ev (trim e) \<in> set (map user_email tbl)
            \<longrightarrow> register ev tbl b = (\<lparr>status = 400, payload = message (js ''Email already exists'')\<rparr>, tbl))"
proof (intro conjI allI impI)
  fix e
  assume "register_try ev tbl (field b ''name'') (field b ''email'') (field b ''password'') = Inl e"
  with assms show "register ev tbl b = (\<lparr>status = 400, payload = message (js ''Email already exists'')\<rparr>, tbl)"
    by (simp add: register_truthy)
next
  assume f: "db_fault ev"
  have "\<exists>e. register_try ev tbl (field b ''name'') (field b ''email'') (field b ''password'') = Inl e"
  proof (cases "register_try ev tbl (field b ''name'') (field b ''email'') (field b ''password'')")
    case (Inr t)
    from register_try_Inr [OF Inr] f show ?thesis by blast
  qed blast
  with assms show "register ev tbl b = (\<lparr>status = 400, payload = message (js ''Email already exists'')\<rparr>, tbl)"
    by (auto simp: register_truthy)
next
  fix e
  assume d: "field b ''email'' = JStr e \<and> toLowerCase ev (trim e) \<in> set (map user_email tbl)"
  have "\<exists>e. register_try ev tbl (field b ''name'') (field b ''email'') (field b ''password'') = Inl e"
  proof (cases "register_try ev tbl (field b ''name'') (field b ''email'') (field b ''password'')")
    case (Inr t)
    from register_try_Inr [OF Inr] d show ?thesis by auto
  qed blast
  with assms show "register ev tbl b = (\<lparr>status = 400, payload = message (js ''Email already exists'')\<rparr>, tbl)"
    by (auto simp: register_truthy)
qed

text \<open>
  A second registration of Ann's address in another spelling, and a registration while
  the store is failing.
\<close>

theorem insert_failures_collapse_witness:
  "register sample_env [ann_row]
      [''name'' \<mapsto> JStr (js ''Bob''), ''email'' \<mapsto> JStr (js '' Ann@Example.com''), ''password'' \<mapsto> JStr (js ''hunter2'')]
     = (\<lparr>status = 400, payload = message (js ''Email already exists'')\<rparr>, [ann_row])
   \<and> register (sample_env\<lparr>db_fault := True\<rparr>) []
      [''name'' \<mapsto> JStr (js ''Bob''), ''email'' \<mapsto> JStr (js ''bob@example.com''), ''password'' \<mapsto> JStr (js ''hunter2'')]
     = (\<lparr>status = 400, payload = message (js ''Email already exists'')\<rparr>, [])"
  using insert_failures_collapse
          [of "[''name'' \<mapsto> JStr (js ''Bob''), ''email'' \<mapsto> JStr (js '' Ann@Example.com''), ''password'' \<mapsto> JStr (js ''hunter2'')]"
              sample_env "[ann_row]"]
        insert_failures_collapse
          [of "[''name'' \<mapsto> JStr (js ''Bob''), ''email'' \<mapsto> JStr (js ''bob@example.com''), ''password'' \<mapsto> JStr (js ''hunter2'')]"
              "sample_env\<lparr>db_fault := True\<rparr>" "[]"]
  by (simp add: field_def ann_row_def toLowerCase_def lower_unit_def is_ascii_def trim_def is_space_def sample_env_def js_def)

text \<open>
  Claim C7. The row a successful registration appends holds, as its password, what the
  hasher returned for the submitted password at cost 10; its name and email come from the
  name and email fields alone. The hasher is a library outside the repository: given its
  contract, that its output is never empty and never its input, the stored password is
  neither empty nor the plaintext.
\<close>

theorem stored_password_is_hash:
  assumes "register ev tbl b = (r, tbl')" and "status r = 200"
    and contract: "\<And>p h. hash_impl ev p 10 = Some h \<Longrightarrow> h \<noteq> [] \<and> h \<noteq> p"
  shows "\<exists>n e p h. field b ''name'' = JStr n \<and> field b ''email'' = JStr e \<and> field b ''password'' = JStr p
           \<and> hash_impl ev p 10 = Some h
           \<and> tbl' = tbl @ [\<lparr>user_id = next_id tbl, user_name = Some (or_User (trim n)),
                              user_email = toLowerCase ev (trim e), user_password = h,
                              user_created_at = db_clock ev\<rparr>]
           \<and> user_password (last tbl') = h \<and> h \<noteq> [] \<and> h \<noteq> p"
proof -
  from register_200 [OF assms(1,2)]
  have "register_try ev tbl (field b ''name'') (field b ''email'') (field b ''password'') = Inr tbl'"
    by simp
  from register_try_Inr [OF this] obtain n e p h where
    f: "field b ''name'' = JStr n" "field b ''email'' = JStr e" "field b ''password'' = JStr p"
    and h: "hash_impl ev p 10 = Some h" and t: "tbl' = tbl @ [new_row ev tbl n e h]"
    by blast
  from contract [OF h] have "h \<noteq> []" "h \<noteq> p" by simp_all
  with f h t show ?thesis by (simp add: new_row_def)
qed

lemma sample_hash_contract:
  assumes "hash_impl sample_env p 10 = Some h"
  shows "h \<noteq> [] \<and> h \<noteq> p"
proof -
  from assms have h: "h = js ''$2b$10$'' @ rev p" by (auto simp: sample_env_def)
  then have "length h = 7 + length p" by (simp add: js_def)
  then have "h \<noteq> p" by auto
  with h show ?thesis by (simp add: js_def)
qed

theorem stored_password_is_hash_witness:
  "\<exists>n e p h.
      field [''name'' \<mapsto> JStr (js ''Ann''), ''email'' \<mapsto> JStr (js ''ann@example.com''), ''password'' \<mapsto> JStr (js ''secret1'')] ''name'' = JStr n
    \<and> field [''name'' \<mapsto> JStr (js ''Ann''), ''email'' \<mapsto> JStr (js ''ann@example.com''), ''password'' \<mapsto> JStr (js ''secret1'')] ''email'' = JStr e
    \<and> field [''name'' \<mapsto> JStr (js ''Ann''), ''email'' \<mapsto> JStr (js ''ann@example.com''), ''password'' \<mapsto> JStr (js ''secret1'')] ''password'' = JStr p
    \<and> hash_impl sample_env p 10 = Some h
    \<and> [ann_row] = [] @ [\<lparr>user_id = next_id [], user_name = Some (or_User (trim n)),
                          user_email = toLowerCase sample_env (trim e), user_password = h,
                          user_created_at = db_clock sample_env\<rparr>]
    \<and> user_password (last [ann_row]) = h \<and> h \<noteq> [] \<and> h \<noteq> p"
proof -
  let ?b = "[''name'' \<mapsto> JStr (js ''Ann''), ''email'' \<mapsto> JStr (js ''ann@example.com''), ''password'' \<mapsto> JStr (js ''secret1'')]"
  have 1: "register sample_env [] ?b =
    (\<lparr>status = 200, payload = JObj [(''success'', JBool True), (''message'', JStr (js ''Account created!''))]\<rparr>,
     [ann_row])"
    by (simp add: run_defs ann_row_def)
  have 2: "status \<lparr>status = 200, payload = JObj [(''success'', JBool True), (''message'', JStr (js ''Account created!''))]\<rparr> = 200"
    by simp
  from stored_password_is_hash [OF 1 2 sample_hash_contract] show ?thesis .
qed

section \<open>Login\<close>

text \<open>
  With a password that is a string, a wrong password for a known email and an email that
  matches no row get the same answer, 401 "Invalid email or password".
\<close>

lemma login_string_credentials_uniform:
  assumes "field b ''email'' = JStr e" and "e \<noteq> []"
    and "field b ''password'' = JStr p" and "p \<noteq> []"
    and "\<not> db_fault ev"
    and "filter (\<lambda>r. user_email r = toLowerCase ev (trim e)) tbl = []
         \<or> (\<exists>user rest. filter (\<lambda>r. user_email r = toLowerCase ev (trim e)) tbl = user # rest
               \<and> \<not> compare_impl ev p (user_password user))"
  shows "login ev tbl b = \<lparr>status = 401, payload = message (js ''Invalid email or password'')\<rparr>"
proof -
  have "truthy (field b ''password'')" using assms(3,4) by simp
  from login_string_email [OF assms(1,2) this, of ev tbl] assms(3,5,6) show ?thesis
    by (auto simp: invalid_credentials_def)
qed

text \<open>
  Claim C2, violated by the code. A password that is not a string, say the JSON number 123,
  is a wrong password for every account. For an email that matches no row the handler
  answers 401 before it compares; for Ann's email the comparison throws and the handler
  answers 500. The two answers tell whether the account exists.
\<close>

theorem non_string_password_tells_accounts_apart:
  "login sample_env [ann_row] [''email'' \<mapsto> JStr (js ''ann@example.com''), ''password'' \<mapsto> JNum 123]
     = \<lparr>status = 500, payload = message server_error_message\<rparr>
   \<and> login sample_env [ann_row] [''email'' \<mapsto> JStr (js ''nobody@example.com''), ''password'' \<mapsto> JNum 123]
     = \<lparr>status = 401, payload = message (js ''Invalid email or password'')\<rparr>"
  by (simp add: run_defs ann_row_def)

text \<open>
  Claim C3. A login that succeeds answers with the token the signer returns for: the
  claims id, name and email of the first row whose email is the normalised email of the
  request, the name being the stored name trimmed, or "User" when that is empty or the
  column is null; the secret \<^verbatim>\<open>JWT_SECRET\<close>, or "medilocker_secret_2025" when it is unset
  or empty; and the option \<^verbatim>\<open>expiresIn: "30d"\<close>.
\<close>

theorem login_token_contents:
  assumes "status (login ev tbl b) = 200"
  shows "\<exists>e user rest.
           field b ''email'' = JStr e
         \<and> filter (\<lambda>r. user_email r = toLowerCase ev (trim e)) tbl = user # rest
         \<and> login ev tbl b =
             \<lparr>status = 200,
               payload = JObj [(''success'', JBool True),
                 (''token'', JStr (sign_impl ev
                    (JObj [(''id'', JNum (int (user_id user))),
                           (''name'', JStr (case user_name user of
                                              None \<Rightarrow> js ''User''
                                            | Some n \<Rightarrow> if trim n = [] then js ''User'' else trim n)),
                           (''email'', JStr (user_email user))])
                    (case JWT_SECRET ev of
                       None \<Rightarrow> js ''medilocker_secret_2025''
                     | Some s \<Rightarrow> if s = [] then js ''medilocker_secret_2025'' else s)
                    (JObj [(''expiresIn'', JStr (js ''30d''))])))]\<rparr>"
proof -
  have "\<not> (\<not> truthy (field b ''email'') \<or> \<not> truthy (field b ''password''))"
  proof
    assume "\<not> truthy (field b ''email'') \<or> \<not> truthy (field b ''password'')"
    from login_falsy [OF this, of ev tbl] assms show False by simp
  qed
  then have t: "truthy (field b ''email'')" "truthy (field b ''password'')" by simp_all
  have "is_string (field b ''email'')"
  proof (rule ccontr)
    assume "\<not> is_string (field b ''email'')"
    from login_not_string_email [OF t this, of ev tbl] assms show False by simp
  qed
  then obtain e where e: "field b ''email'' = JStr e"
    by (cases "field b ''email''") simp_all
  with t have ne: "e \<noteq> []" by simp
  note eq = login_string_email [OF e ne t(2), of ev tbl]
  from assms eq have nf: "\<not> db_fault ev" by (auto split: if_splits)
  from assms eq nf obtain user rest where
    rows: "filter (\<lambda>r. user_email r = toLowerCase ev (trim e)) tbl = user # rest"
    by (cases "filter (\<lambda>r. user_email r = toLowerCase ev (trim e)) tbl") simp_all
  from assms eq nf rows have "login ev tbl b = login_ok ev user"
    by (auto split: json.splits if_splits)
  then have "login ev tbl b =
             \<lparr>status = 200,
               payload = JObj [(''success'', JBool True),
                 (''token'', JStr (sign_impl ev
                    (JObj [(''id'', JNum (int (user_id user))),
                           (''name'', JStr (case user_name user of
                                              None \<Rightarrow> js ''User''
                                            | Some n \<Rightarrow> if trim n = [] then js ''User'' else trim n)),
                           (''email'', JStr (user_email user))])
                    (case JWT_SECRET ev of
                       None \<Rightarrow> js ''medilocker_secret_2025''
                     | Some s \<Rightarrow> if s = [] then js ''medilocker_secret_2025'' else s)
                    (JObj [(''expiresIn'', JStr (js ''30d''))])))]\<rparr>"
    by (simp add: login_ok_def jwt_sign_def token_claims_def safeName_def jwt_secret_def or_User_def
        split: option.splits)
  with e rows show ?thesis by blast
qed

theorem login_token_contents_witness:
  "\<exists>e user rest.
           field [''email'' \<mapsto> JStr (js '' Ann@Example.com''), ''password'' \<mapsto> JStr (js ''secret1'')] ''email'' = JStr e
         \<and> filter (\<lambda>r. user_email r = toLowerCase sample_env (trim e)) [ann_row] = user # rest
         \<and> login sample_env [ann_row] [''email'' \<mapsto> JStr (js '' Ann@Example.com''), ''password'' \<mapsto> JStr (js ''secret1'')] =
             \<lparr>status = 200,
               payload = JObj [(''success'', JBool True),
                 (''token'', JStr (sign_impl sample_env
                    (JObj [(''id'', JNum (int (user_id user))),
                           (''name'', JStr (case user_name user of
                                              None \<Rightarrow> js ''User''
                                            | Some n \<Rightarrow> if trim n = [] then js ''User'' else trim n)),
                           (''email'', JStr (user_email user))])
                    (case JWT_SECRET sample_env of
                       None \<Rightarrow> js ''medilocker_secret_2025''
                     | Some s \<Rightarrow> if s = [] then js ''medilocker_secret_2025'' else s)
                    (JObj [(''expiresIn'', JStr (js ''30d''))])))]\<rparr>"
proof -
  have "status (login sample_env [ann_row]
          [''email'' \<mapsto> JStr (js '' Ann@Example.com''), ''password'' \<mapsto> JStr (js ''secret1'')]) = 200"
    by (simp add: run_defs ann_row_def)
  from login_token_contents [OF this] show ?thesis .
qed

text \<open>A stored name of one no-break space goes into the token as "User".\<close>

lemma safeName_no_break_space:
  "safeName \<lparr>user_id = 1, user_name = Some [0x00A0], user_email = js ''ann@example.com'',
             user_password = js ''$2b$10$1terces'', user_created_at = 0\<rparr> = js ''User''"
  by (simp add: safeName_def or_User_def trim_def is_space_def)

text \<open>
  Claim C10, as the code has it. With all three fields truthy and one of them not a
  string, registration answers 400 "Email already exists" and the table is unchanged.
  With email and password truthy and one of them not a string, login answers 500 when the
  email is not a string; when the email is a string (so the password is not), it answers
  401 if the store answers and no row matches, and 500 otherwise.
\<close>

theorem non_string_fields:
  "(truthy (field b ''name'') \<and> truthy (field b ''email'') \<and> truthy (field b ''password'')
      \<and> (\<not> is_string (field b ''name'') \<or> \<not> is_string (field b ''email'')
           \<or> \<not> is_string (field b ''password''))
     \<longrightarrow> register ev tbl b = (\<lparr>status = 400, payload = message (js ''Email already exists'')\<rparr>, tbl))
   \<and> (truthy (field b ''email'') \<and> truthy (field b ''password'')
      \<and> (\<not> is_string (field b ''email'') \<or> \<not> is_string (field b ''password''))
     \<longrightarrow> login ev tbl b =
           (case field b ''email'' of
              JStr e \<Rightarrow>
                if \<not> db_fault ev \<and> filter (\<lambda>r. user_email r = toLowerCase ev (trim e)) tbl = []
                then \<lparr>status = 401, payload = message (js ''Invalid email or password'')\<rparr>
                else \<lparr>status = 500, payload = message server_error_message\<rparr>
            | _ \<Rightarrow> \<lparr>status = 500, payload = message server_error_message\<rparr>))"
proof (intro conjI impI)
  assume a: "truthy (field b ''name'') \<and> truthy (field b ''email'') \<and> truthy (field b ''password'')
      \<and> (\<not> is_string (field b ''name'') \<or> \<not> is_string (field b ''email'')
           \<or> \<not> is_string (field b ''password''))"
  have "\<exists>e. register_try ev tbl (field b ''name'') (field b ''email'') (field b ''password'') = Inl e"
  proof (cases "register_try ev tbl (field b ''name'') (field b ''email'') (field b ''password'')")
    case (Inr t)
    from register_try_Inr [OF Inr] a show ?thesis by auto
  qed blast
  with a show "register ev tbl b = (\<lparr>status = 400, payload = message (js ''Email already exists'')\<rparr>, tbl)"
    by (auto simp: register_truthy)
next
  assume a: "truthy (field b ''email'') \<and> truthy (field b ''password'')
      \<and> (\<not> is_string (field b ''email'') \<or> \<not> is_string (field b ''password''))"
  show "login ev tbl b =
           (case field b ''email'' of
              JStr e \<Rightarrow>
                if \<not> db_fault ev \<and> filter (\<lambda>r. user_email r = toLowerCase ev (trim e)) tbl = []
                then \<lparr>status = 401, payload = message (js ''Invalid email or password'')\<rparr>
                else \<lparr>status = 500, payload = message server_error_message\<rparr>
            | _ \<Rightarrow> \<lparr>status = 500, payload = message server_error_message\<rparr>)"
  proof (cases "is_string (field b ''email'')")
    case False
    from a False have "login ev tbl b = server_error"
      by (simp add: login_not_string_email)
    with False show ?thesis
      by (cases "field b ''email''") (simp_all add: server_error_def)
  next
    case True
    then obtain e where e: "field b ''email'' = JStr e"
      by (cases "field b ''email''") simp_all
    with a have ne: "e \<noteq> []" and tp: "truthy (field b ''password'')"
      and np: "\<not> is_string (field b ''password'')" by simp_all
    from login_string_email [OF e ne tp, of ev tbl] np e show ?thesis
      by (cases "field b ''password''")
         (simp_all add: server_error_def invalid_credentials_def split: list.splits)
  qed
qed

theorem non_string_fields_witness:
  "register sample_env []
      [''name'' \<mapsto> JNum 7, ''email'' \<mapsto> JStr (js ''ann@example.com''), ''password'' \<mapsto> JNum 123]
     = (\<lparr>status = 400, payload = message (js ''Email already exists'')\<rparr>, [])
   \<and> login sample_env [ann_row]
      [''name'' \<mapsto> JNum 7, ''email'' \<mapsto> JStr (js ''ann@example.com''), ''password'' \<mapsto> JNum 123]
     = \<lparr>status = 500, payload = message server_error_message\<rparr>"
  using non_string_fields
          [of "[''name'' \<mapsto> JNum 7, ''email'' \<mapsto> JStr (js ''ann@example.com''), ''password'' \<mapsto> JNum 123]"
              sample_env "[]"]
        non_string_fields
          [of "[''name'' \<mapsto> JNum 7, ''email'' \<mapsto> JStr (js ''ann@example.com''), ''password'' \<mapsto> JNum 123]"
              sample_env "[ann_row]"]
  by (simp add: field_def ann_row_def sample_env_def toLowerCase_def lower_unit_def is_ascii_def trim_def is_space_def js_def)

text \<open>
  Claim C10 as written fails: a login with the password \<^verbatim>\<open>true\<close> and an email that matches
  no row is answered 401, not 500; and a registration with the name 7 and no email is
  answered "All fields required".
\<close>

theorem non_string_password_unknown_email_is_401:
  "login sample_env []
      [''email'' \<mapsto> JStr (js ''nobody@example.com''), ''password'' \<mapsto> JBool True]
     = \<lparr>status = 401, payload = message (js ''Invalid email or password'')\<rparr>
   \<and> register sample_env [] [''name'' \<mapsto> JNum 7, ''password'' \<mapsto> JStr (js ''secret1'')]
     = (\<lparr>status = 400, payload = message (js ''All fields required'')\<rparr>, [])"
  by (simp add: run_defs)

text \<open>
  Claim C4, as the code has it. After a registration that succeeded with the email
  \<open>e1\<close> and the password \<open>p\<close>, the new row holds \<open>e1\<close> trimmed and lower-cased, and a login
  on the same engine with the same password and any non-empty email \<open>e2\<close> that trims and
  lower-cases to the same string succeeds with a token for that row, as long as the store
  answers and the hasher's comparison accepts the hash it made of \<open>p\<close>.
\<close>

theorem register_then_login_normalized:
  assumes reg: "register ev tbl b = (r, tbl')" and ok: "status r = 200"
    and e1: "field b ''email'' = JStr e1" and p1: "field b ''password'' = JStr p"
    and e2: "field b2 ''email'' = JStr e2" and p2: "field b2 ''password'' = JStr p"
    and engine: "unicode_lower ev2 = unicode_lower ev"
    and same: "toLowerCase ev (trim e2) = toLowerCase ev (trim e1)"
    and ne: "e2 \<noteq> []"
    and up: "\<not> db_fault ev2"
    and bcrypt: "\<And>h. hash_impl ev p 10 = Some h \<Longrightarrow> compare_impl ev2 p h"
  shows "user_email (last tbl') = toLowerCase ev (trim e1)
       \<and> login ev2 tbl' b2 =
           \<lparr>status = 200,
             payload = JObj [(''success'', JBool True), (''token'', JStr (jwt_sign ev2 (last tbl')))]\<rparr>"
proof -
  from register_200 [OF reg ok]
  have tr: "truthy (field b ''password'')"
    and "register_try ev tbl (field b ''name'') (field b ''email'') (field b ''password'') = Inr tbl'"
    by simp_all
  from register_try_Inr [OF this(2)] e1 p1 obtain n h where
    h: "hash_impl ev p 10 = Some h"
    and fresh: "toLowerCase ev (trim e1) \<notin> set (map user_email tbl)"
    and t: "tbl' = tbl @ [new_row ev tbl n e1 h]"
    by auto
  from fresh have "filter (\<lambda>r. user_email r = toLowerCase ev (trim e1)) tbl = []"
    by (force simp: filter_empty_conv image_iff)
  moreover from engine have "toLowerCase ev2 (trim e2) = toLowerCase ev (trim e2)"
    by (simp add: toLowerCase_def)
  ultimately have rows:
    "filter (\<lambda>r. user_email r = toLowerCase ev2 (trim e2)) tbl' = [new_row ev tbl n e1 h]"
    using t same by (simp add: new_row_def)
  from tr p1 p2 have tp: "truthy (field b2 ''password'')" by simp
  from bcrypt [OF h] have "compare_impl ev2 p (user_password (new_row ev tbl n e1 h))"
    by (simp add: new_row_def)
  with login_string_email [OF e2 ne tp, of ev2 tbl'] up rows p2
  have "login ev2 tbl' b2 = login_ok ev2 (new_row ev tbl n e1 h)" by simp
  moreover from t have "last tbl' = new_row ev tbl n e1 h" by simp
  ultimately show ?thesis by (simp add: login_ok_def new_row_def)
qed

text \<open>
  Registering "A@B.com " and logging in with "a@b.com".
\<close>

theorem register_then_login_normalized_witness:
  "user_email (last [\<lparr>user_id = 1, user_name = Some (js ''Ann''), user_email = js ''a@b.com'',
                       user_password = js ''$2b$10$1terces'', user_created_at = 0\<rparr>])
     = toLowerCase sample_env (trim (js ''A@B.com ''))
   \<and> login sample_env
        [\<lparr>user_id = 1, user_name = Some (js ''Ann''), user_email = js ''a@b.com'',
          user_password = js ''$2b$10$1terces'', user_created_at = 0\<rparr>]
        [''email'' \<mapsto> JStr (js ''a@b.com''), ''password'' \<mapsto> JStr (js ''secret1'')]
     = \<lparr>status = 200,
        payload = JObj [(''success'', JBool True),
          (''token'', JStr (jwt_sign sample_env
             (last [\<lparr>user_id = 1, user_name = Some (js ''Ann''), user_email = js ''a@b.com'',
                      user_password = js ''$2b$10$1terces'', user_created_at = 0\<rparr>])))]\<rparr>"
proof -
  let ?b = "[''name'' \<mapsto> JStr (js ''Ann''), ''email'' \<mapsto> JStr (js ''A@B.com ''), ''password'' \<mapsto> JStr (js ''secret1'')]"
  let ?b2 = "[''email'' \<mapsto> JStr (js ''a@b.com''), ''password'' \<mapsto> JStr (js ''secret1'')]"
  have reg: "register sample_env [] ?b =
    (\<lparr>status = 200, payload = JObj [(''success'', JBool True), (''message'', JStr (js ''Account created!''))]\<rparr>,
     [\<lparr>user_id = 1, user_name = Some (js ''Ann''), user_email = js ''a@b.com'',
       user_password = js ''$2b$10$1terces'', user_created_at = 0\<rparr>])"
    by (simp add: run_defs)
  have ok: "status \<lparr>status = 200, payload = JObj [(''success'', JBool True), (''message'', JStr (js ''Account created!''))]\<rparr> = 200"
    by simp
  have e1: "field ?b ''email'' = JStr (js ''A@B.com '')" and p1: "field ?b ''password'' = JStr (js ''secret1'')"
    and e2: "field ?b2 ''email'' = JStr (js ''a@b.com'')" and p2: "field ?b2 ''password'' = JStr (js ''secret1'')"
    by (simp_all add: field_def)
  have engine: "unicode_lower sample_env = unicode_lower sample_env" by simp
  have same: "toLowerCase sample_env (trim (js ''a@b.com'')) = toLowerCase sample_env (trim (js ''A@B.com ''))"
    by (simp add: toLowerCase_def lower_unit_def is_ascii_def trim_def is_space_def js_def)
  have ne: "js ''a@b.com'' \<noteq> []" by (simp add: js_def)
  have up: "\<not> db_fault sample_env" by (simp add: sample_env_def)
  have bcrypt: "\<And>h. hash_impl sample_env (js ''secret1'') 10 = Some h \<Longrightarrow> compare_impl sample_env (js ''secret1'') h"
    by (auto simp: sample_env_def)
  from register_then_login_normalized [OF reg ok e1 p1 e2 p2 engine same ne up bcrypt] show ?thesis .
qed

text \<open>
  An email that is not ASCII, in the sample engine: U+00C9 "A@x.com" is stored with
  U+00E9 and a small a, and a login with that spelling succeeds.
\<close>

lemma register_then_login_eacute:
  "register sample_env []
      [''name'' \<mapsto> JStr (js ''Ann''), ''email'' \<mapsto> JStr (0x00C9 # js ''A@x.com''),
       ''password'' \<mapsto> JStr (js ''secret1'')]
     = (\<lparr>status = 200,
         payload = JObj [(''success'', JBool True), (''message'', JStr (js ''Account created!''))]\<rparr>,
        [\<lparr>user_id = 1, user_name = Some (js ''Ann''), user_email = 0x00E9 # js ''a@x.com'',
          user_password = js ''$2b$10$1terces'', user_created_at = 0\<rparr>])
   \<and> status (login sample_env
        [\<lparr>user_id = 1, user_name = Some (js ''Ann''), user_email = 0x00E9 # js ''a@x.com'',
          user_password = js ''$2b$10$1terces'', user_created_at = 0\<rparr>]
        [''email'' \<mapsto> JStr (0x00E9 # js ''a@x.com''), ''password'' \<mapsto> JStr (js ''secret1'')]) = 200"
  by (simp add: run_defs)

text \<open>
  Claim C4 as written fails at the empty variant: an email of one space registers and is
  stored as the empty string; the empty email normalises to the same string, and a login
  with it is refused with 400.
\<close>

theorem blank_email_registers_but_empty_email_is_refused:
  "toLowerCase sample_env (trim []) = toLowerCase sample_env (trim (js '' ''))
   \<and> register sample_env []
        [''name'' \<mapsto> JStr (js ''Ann''), ''email'' \<mapsto> JStr (js '' ''), ''password'' \<mapsto> JStr (js ''secret1'')]
     = (\<lparr>status = 200,
         payload = JObj [(''success'', JBool True), (''message'', JStr (js ''Account created!''))]\<rparr>,
        [\<lparr>user_id = 1, user_name = Some (js ''Ann''), user_email = [],
          user_password = js ''$2b$10$1terces'', user_created_at = 0\<rparr>])
   \<and> login sample_env
        [\<lparr>user_id = 1, user_name = Some (js ''Ann''), user_email = [],
          user_password = js ''$2b$10$1terces'', user_created_at = 0\<rparr>]
        [''email'' \<mapsto> JStr [], ''password'' \<mapsto> JStr (js ''secret1'')]
     = \<lparr>status = 400, payload = message (js ''Email and password required'')\<rparr>"
  by (simp add: run_defs)

section \<open>Upload\<close>

lemma multer_parts_no_file_under_field:
  assumes "\<forall>p \<in> set ps. \<not> file_under ev (js ''file'') p"
  shows "multer_parts ev ps filesLeft f bkt =
     (case first_rejection ev ps of
        Some m \<Rightarrow> abort m f bkt
      | None \<Rightarrow> (\<lparr>err = None, req_file = f\<rparr>, bkt))"
  using assms
proof (induction ps)
  case Nil
  then show ?case by simp
next
  case (Cons p ps)
  then show ?case by (cases p) (auto split: option.splits)
qed

lemma first_rejection_carries_file:
  assumes "p \<in> set ps" and "carries_file ev p"
  shows "first_rejection ev ps \<noteq> None"
  using assms
proof (induction ps)
  case Nil
  then show ?case by simp
next
  case (Cons q qs)
  show ?case
  proof (cases "rejection ev q")
    case (Some m)
    then show ?thesis by simp
  next
    case None
    have "p \<noteq> q"
    proof
      assume "p = q"
      with Cons.prems(2) None show False by (cases q) simp_all
    qed
    with Cons None show ?thesis by simp
  qed
qed

text \<open>
  Claim C9, as the code has it. A request with no file under the field \<^verbatim>\<open>file\<close> stores
  nothing. It is answered 400 "No file uploaded" unless the middleware reports an error;
  then the callback, which looks at the error first, answers 500 "Upload failed" with the
  middleware's message. A file under another field name is such an error.
\<close>

theorem upload_without_file_under_field:
  assumes "\<forall>p \<in> set (parts_of req). \<not> file_under ev (js ''file'') p"
  shows "snd (upload ev req bkt) = bkt
       \<and> fst (upload ev req bkt) =
           (case first_rejection ev (parts_of req) of
              None \<Rightarrow>
                \<lparr>status = 400,
                  payload = JObj [(''success'', JBool False),
                                  (''message'', JStr (js ''No file uploaded''))]\<rparr>
            | Some m \<Rightarrow>
                \<lparr>status = 500,
                  payload = JObj [(''success'', JBool False),
                                  (''message'', JStr (js ''Upload failed'')), (''error'', JStr m)]\<rparr>)
       \<and> ((\<exists>p \<in> set (parts_of req). carries_file ev p)
            \<longrightarrow> status (fst (upload ev req bkt)) = 500)"
proof -
  have main: "upload ev req bkt =
     (case first_rejection ev (parts_of req) of
        None \<Rightarrow> (no_file_uploaded, bkt)
      | Some m \<Rightarrow> (upload_failed m, bkt))"
  proof (cases req)
    case NotMultipart
    then show ?thesis
      by (simp add: upload_def upload_single_def upload_callback_def parts_of_def)
  next
    case (Multipart ps)
    with assms have "\<forall>p \<in> set ps. \<not> file_under ev (js ''file'') p"
      by (simp add: parts_of_def)
    from multer_parts_no_file_under_field [OF this, of 1 None bkt] Multipart show ?thesis
      by (simp add: upload_def upload_single_def upload_callback_def parts_of_def abort_def
          remove_uploaded_def split: option.splits)
  qed
  have "(\<exists>p \<in> set (parts_of req). carries_file ev p) \<longrightarrow> status (fst (upload ev req bkt)) = 500"
  proof
    assume "\<exists>p \<in> set (parts_of req). carries_file ev p"
    then obtain p where "p \<in> set (parts_of req)" "carries_file ev p" by blast
    from first_rejection_carries_file [OF this] obtain m where
      "first_rejection ev (parts_of req) = Some m" by auto
    with main show "status (fst (upload ev req bkt)) = 500"
      by (simp add: upload_failed_def)
  qed
  with main show ?thesis
    by (simp add: no_file_uploaded_def upload_failed_def split: option.splits)
qed

text \<open>A request of one text field and an empty file input; a request with a file under \<^verbatim>\<open>avatar\<close>.\<close>

theorem upload_without_file_under_field_witness:
  "upload sample_env (Multipart [TextField (js ''note'') (js ''hello''), FilePart (js ''file'') [] []]) Map.empty
     = (\<lparr>status = 400,
         payload = JObj [(''success'', JBool False), (''message'', JStr (js ''No file uploaded''))]\<rparr>,
        Map.empty)
   \<and> status (fst (upload sample_env
        (Multipart [FilePart (js ''avatar'') (js ''C:/pictures/me.png'') (js ''PNG'')]) Map.empty)) = 500
   \<and> snd (upload sample_env
        (Multipart [FilePart (js ''avatar'') (js ''C:/pictures/me.png'') (js ''PNG'')]) Map.empty) = Map.empty"
proof -
  let ?r1 = "Multipart [TextField (js ''note'') (js ''hello''), FilePart (js ''file'') [] []]"
  let ?r2 = "Multipart [FilePart (js ''avatar'') (js ''C:/pictures/me.png'') (js ''PNG'')]"
  have 1: "\<forall>p \<in> set (parts_of ?r1). \<not> file_under sample_env (js ''file'') p"
    by (simp add: parts_of_def sample_env_def base_name_def js_def)
  have 2: "\<forall>p \<in> set (parts_of ?r2). \<not> file_under sample_env (js ''file'') p"
    by (simp add: parts_of_def js_def)
  have 3: "\<exists>p \<in> set (parts_of ?r2). carries_file sample_env p"
    by (simp add: parts_of_def sample_env_def base_name_def js_def)
  have 4: "first_rejection sample_env (parts_of ?r1) = None"
    by (simp add: parts_of_def sample_env_def base_name_def js_def)
  from upload_without_file_under_field [OF 1, of Map.empty] 4
  have "upload sample_env ?r1 Map.empty
     = (\<lparr>status = 400,
         payload = JObj [(''success'', JBool False), (''message'', JStr (js ''No file uploaded''))]\<rparr>,
        Map.empty)"
    by (simp add: prod_eq_iff)
  moreover from upload_without_file_under_field [OF 2, of Map.empty] 3
  have "status (fst (upload sample_env ?r2 Map.empty)) = 500
      \<and> snd (upload sample_env ?r2 Map.empty) = Map.empty"
    by blast
  ultimately show ?thesis by blast
qed

text \<open>
  Claim C9 as written fails: a request whose only file sits under the field
  \<^verbatim>\<open>document\<close> carries no file under \<^verbatim>\<open>file\<close>, and is answered 500 with the middleware's
  message, not 400.
\<close>

theorem file_under_another_field_is_500:
  "upload sample_env (Multipart [FilePart (js ''document'') (js ''scan.pdf'') (js ''%PDF-1.4'')]) Map.empty
     = (\<lparr>status = 500,
         payload = JObj [(''success'', JBool False), (''message'', JStr (js ''Upload failed'')),
                         (''error'', JStr (unexpected_file_message sample_env))]\<rparr>,
        Map.empty)"
  by (simp add: upload_defs)

end
